theory Spec2Isabelle
  imports Complex_Main
begin

section \<open>Python strings\<close>

text \<open>
  A Python \<^verbatim>\<open>str\<close> is a sequence of Unicode code points; \<^verbatim>\<open>len\<close>, slicing and
  the \<^verbatim>\<open>re\<close> module all count code points. The model is a list of code points, and
  \<open>str\<close> embeds an ASCII literal.
\<close>

type_synonym pystr = "nat list"

definition str :: "string \<Rightarrow> pystr" where
  "str s = map of_char s"

text \<open>
  \<^verbatim>\<open>str.isspace\<close>, which is also the class \<^verbatim>\<open>\s\<close> of a \<^verbatim>\<open>str\<close> pattern and what
  \<^verbatim>\<open>str.strip()\<close> removes.
\<close>

definition is_space :: "nat \<Rightarrow> bool" where
  "is_space c = ((9 \<le> c \<and> c \<le> 13) \<or> (28 \<le> c \<and> c \<le> 32) \<or> c = 0x85 \<or> c = 0xA0
     \<or> c = 0x1680 \<or> (0x2000 \<le> c \<and> c \<le> 0x200A) \<or> c = 0x2028 \<or> c = 0x2029
     \<or> c = 0x202F \<or> c = 0x205F \<or> c = 0x3000)"

text \<open>
  The class \<^verbatim>\<open>\d\<close> of a \<^verbatim>\<open>str\<close> pattern is the Unicode category Nd. Its members come
  in runs of ten, each starting at a digit zero; \<open>nd_zeros\<close> lists the zeros (Unicode
  14.0, the table of CPython 3.11). The value of a digit is its offset in its run.
\<close>

definition nd_zeros :: "nat list" where
  "nd_zeros = [0x30, 0x660, 0x6F0, 0x7C0, 0x966, 0x9E6, 0xA66, 0xAE6, 0xB66, 0xBE6, 0xC66,
     0xCE6, 0xD66, 0xDE6, 0xE50, 0xED0, 0xF20, 0x1040, 0x1090, 0x17E0, 0x1810, 0x1946,
     0x19D0, 0x1A80, 0x1A90, 0x1B50, 0x1BB0, 0x1C40, 0x1C50, 0xA620, 0xA8D0, 0xA900,
     0xA9D0, 0xA9F0, 0xAA50, 0xABF0, 0xFF10, 0x104A0, 0x10D30, 0x11066, 0x110F0, 0x11136,
     0x111D0, 0x112F0, 0x11450, 0x114D0, 0x11650, 0x116C0, 0x11730, 0x118E0, 0x11950,
     0x11C50, 0x11D50, 0x11DA0, 0x16A60, 0x16AC0, 0x16B50, 0x1D7CE, 0x1D7D8, 0x1D7E2,
     0x1D7EC, 0x1D7F6, 0x1E140, 0x1E2F0, 0x1E950, 0x1FBF0]"

fun digit_in :: "nat list \<Rightarrow> nat \<Rightarrow> nat option" where
  "digit_in [] c = None"
| "digit_in (z # zs) c = (if z \<le> c \<and> c < z + 10 then Some (c - z) else digit_in zs c)"

definition decimal_value :: "nat \<Rightarrow> nat option" where
  "decimal_value c = (if 48 \<le> c \<and> c \<le> 57 then Some (c - 48) else digit_in nd_zeros c)"

definition is_decimal :: "nat \<Rightarrow> bool" where
  "is_decimal c = (decimal_value c \<noteq> None)"

text \<open>
  \<^verbatim>\<open>str.upper()\<close> maps every code point on its own. \<open>upper_cp\<close> is that mapping for
  U+0000 to U+00FF and for the four letters beyond them that a case-insensitive ASCII
  pattern matches (U+0130, U+0131, U+017F, U+212A); the cased letters of other blocks
  are left as they are, which is not what Python does with them.
\<close>

definition upper_cp :: "nat \<Rightarrow> pystr" where
  "upper_cp c =
     (if 97 \<le> c \<and> c \<le> 122 then [c - 32]
      else if c = 0xB5 then [0x39C]
      else if c = 0xDF then [83, 83]
      else if 0xE0 \<le> c \<and> c \<le> 0xFE \<and> c \<noteq> 0xF7 then [c - 32]
      else if c = 0xFF then [0x178]
      else if c = 0x131 then [73]
      else if c = 0x17F then [83]
      else [c])"

definition upper :: "pystr \<Rightarrow> pystr" where
  "upper s = concat (map upper_cp s)"

section \<open>Regular expressions\<close>

text \<open>
  The patterns of the source use literals, classes, ordered alternation, greedy
  repetition of a class, optional parts and capture groups. \<open>Grp n\<close> is the group that
  Python numbers \<open>n\<close> (by its opening parenthesis).
\<close>

datatype citem = Chr nat | Rng nat nat | Space | Digit | Pred "nat \<Rightarrow> bool"

datatype regex =
    Eps
  | Cls "citem list"
  | Seq regex regex
  | Alt regex regex
  | Star "citem list"
  | Opt regex
  | Grp nat regex

text \<open>
  With \<^verbatim>\<open>re.I\<close> a character matches an ASCII letter of the pattern when it is that
  letter in either case, or one of the four letters whose simple case mapping is an
  ASCII letter. \<open>fold_cp\<close> sends each of them to the lower-case ASCII letter. The
  patterns here hold no cased letter outside ASCII, so no other folding is needed.
\<close>

definition fold_cp :: "nat \<Rightarrow> nat" where
  "fold_cp c =
     (if 65 \<le> c \<and> c \<le> 90 then c + 32
      else if c = 0x130 \<or> c = 0x131 then 105
      else if c = 0x17F then 115
      else if c = 0x212A then 107
      else c)"

fun item_has :: "bool \<Rightarrow> citem \<Rightarrow> nat \<Rightarrow> bool" where
  "item_has ic (Chr p) c = (if ic then fold_cp c = fold_cp p else c = p)"
| "item_has ic (Rng a b) c =
     ((a \<le> c \<and> c \<le> b) \<or>
      (ic \<and> (let f = fold_cp c in
         (a \<le> f \<and> f \<le> b) \<or> (97 \<le> f \<and> f \<le> 122 \<and> a \<le> f - 32 \<and> f - 32 \<le> b))))"
| "item_has ic Space c = is_space c"
| "item_has ic Digit c = is_decimal c"
| "item_has ic (Pred P) c = P c"

fun in_class :: "bool \<Rightarrow> citem list \<Rightarrow> nat \<Rightarrow> bool" where
  "in_class ic [] c = False"
| "in_class ic (i # is) c = (if item_has ic i c then True else in_class ic is c)"

type_synonym groups = "nat \<Rightarrow> pystr option"

text \<open>
  \<open>ms ic r s g\<close> lists, in the order a backtracking matcher tries them, the ways in
  which \<open>r\<close> matches a prefix of \<open>s\<close>: the prefix matched and the groups (\<open>g\<close> with
  those set on the way). The head of the list is the match Python reports. \<open>ic\<close> is
  the flag \<^verbatim>\<open>re.I\<close>.
\<close>

fun ms :: "bool \<Rightarrow> regex \<Rightarrow> pystr \<Rightarrow> groups \<Rightarrow> (pystr \<times> groups) list" where
  "ms ic Eps s g = [([], g)]"
| "ms ic (Cls cs) s g =
     (case s of [] \<Rightarrow> [] | c # s' \<Rightarrow> if in_class ic cs c then [([c], g)] else [])"
| "ms ic (Seq a b) s g =
     concat (map (\<lambda>(u, g1). map (\<lambda>(v, g2). (u @ v, g2)) (ms ic b (drop (length u) s) g1))
                 (ms ic a s g))"
| "ms ic (Alt a b) s g = ms ic a s g @ ms ic b s g"
| "ms ic (Star cs) s g =
     (case s of
        [] \<Rightarrow> [([], g)]
      | c # s' \<Rightarrow>
          if in_class ic cs c
          then map (\<lambda>(u, g1). (c # u, g1)) (ms ic (Star cs) s' g) @ [([], g)]
          else [([], g)])"
| "ms ic (Opt a) s g = ms ic a s g @ [([], g)]"
| "ms ic (Grp n a) s g = map (\<lambda>(u, g1). (u, g1(n \<mapsto> u))) (ms ic a s g)"

definition Plus :: "citem list \<Rightarrow> regex" where
  "Plus cs = Seq (Cls cs) (Star cs)"

definition cat :: "regex list \<Rightarrow> regex" where
  "cat rs = foldr Seq rs Eps"

definition Lit :: "string \<Rightarrow> regex" where
  "Lit s = cat (map (\<lambda>c. Cls [Chr (of_char c)]) s)"

text \<open>A compiled pattern: the \<^verbatim>\<open>re.I\<close> flag and the expression.\<close>

type_synonym pattern = "bool \<times> regex"

text \<open>A match object: the text matched (group 0) and the numbered groups.\<close>

record match =
  whole :: pystr
  grps :: groups

definition group :: "match \<Rightarrow> nat \<Rightarrow> pystr option" where
  "group m k = (if k = 0 then Some (whole m) else grps m k)"

definition match_at :: "pattern \<Rightarrow> pystr \<Rightarrow> match option" where
  "match_at p s =
     (case ms (fst p) (snd p) s Map.empty of
        [] \<Rightarrow> None
      | (u, g) # _ \<Rightarrow> Some \<lparr>whole = u, grps = g\<rparr>)"

text \<open>\<^verbatim>\<open>pattern.search(text)\<close>: the match at the leftmost position that has one.\<close>

fun search :: "pattern \<Rightarrow> pystr \<Rightarrow> match option" where
  "search p [] = match_at p []"
| "search p (c # cs) =
     (case match_at p (c # cs) of Some m \<Rightarrow> Some m | None \<Rightarrow> search p cs)"

text \<open>
  \<^verbatim>\<open>pattern.finditer(text)\<close>: the matches from left to right, each search starting where
  the last match ended (one character further after an empty match).
\<close>

fun finditer :: "pattern \<Rightarrow> pystr \<Rightarrow> match list" where
  "finditer p [] = (case match_at p [] of None \<Rightarrow> [] | Some m \<Rightarrow> [m])"
| "finditer p (c # cs) =
     (case match_at p (c # cs) of
        None \<Rightarrow> finditer p cs
      | Some m \<Rightarrow> m # finditer p (drop (length (whole m) - 1) cs))"


section \<open>Python numbers\<close>

text \<open>
  A \<^verbatim>\<open>float\<close> is an IEEE 754 double. A finite double is modelled by the rational it
  denotes (so \<open>-0.0\<close> and \<open>0.0\<close>, which compare equal, are one value); no NaN arises in
  the code modelled here.
\<close>

datatype pyfloat = Finite rat | Infinity | MinusInfinity

fun bitlen :: "nat \<Rightarrow> nat" where
  "bitlen n = (if n = 0 then 0 else Suc (bitlen (n div 2)))"

declare bitlen.simps [simp del]

definition half_even_div :: "int \<Rightarrow> int \<Rightarrow> int" where
  "half_even_div n d =
     (let q = n div d; r = n mod d
      in if 2 * r < d then q else if d < 2 * r then q + 1 else if even q then q else q + 1)"

text \<open>
  \<open>round_ratio n d\<close> is the double nearest to \<open>n / d\<close> (for \<open>d > 0\<close>), ties to even:
  53 significant bits, the least exponent of a unit in the last place \<open>-1074\<close>,
  overflow from \<open>2 ^ 1024\<close> on. With \<open>a = \<bar>n\<bar>\<close>, \<open>e\<close> is the exponent with
  \<open>2 ^ e \<le> a / d < 2 ^ (e + 1)\<close>, \<open>u\<close> the exponent of the unit in the last place and
  \<open>m\<close> the significand, \<open>a / d\<close> counted in such units and rounded.
\<close>

definition round_ratio :: "int \<Rightarrow> int \<Rightarrow> pyfloat" where
  "round_ratio n d =
     (if n = 0 then Finite 0
      else
        let a = \<bar>n\<bar>;
            k = int (bitlen (nat a)) - int (bitlen (nat d));
            e = (if (if 0 \<le> k then d * 2 ^ nat k \<le> a else d \<le> a * 2 ^ nat (- k))
                 then k else k - 1);
            u = max (e - 52) (- 1074);
            m = (if 0 \<le> u then half_even_div a (d * 2 ^ nat u)
                 else half_even_div (a * 2 ^ nat (- u)) d)
        in if 0 \<le> u \<and> 2 ^ 1024 \<le> m * 2 ^ nat u
           then (if 0 < n then Infinity else MinusInfinity)
           else Finite ((if 0 < n then of_int m else - of_int m) *
                        (if 0 \<le> u then 2 ^ nat u else 1 / 2 ^ nat (- u))))"

fun float_gt0 :: "pyfloat \<Rightarrow> bool" where
  "float_gt0 (Finite r) = (0 < r)"
| "float_gt0 Infinity = True"
| "float_gt0 MinusInfinity = False"

definition is_ascii_digit :: "nat \<Rightarrow> bool" where
  "is_ascii_digit c = (48 \<le> c \<and> c \<le> 57)"

definition digits_value :: "nat list \<Rightarrow> nat" where
  "digits_value ds = foldl (\<lambda>a d. 10 * a + d) 0 ds"

text \<open>
  \<^verbatim>\<open>float(s)\<close> for a plain decimal numeral: digits, then optionally a point and
  digits. \<open>None\<close> stands for \<^verbatim>\<open>ValueError\<close>. Python's \<^verbatim>\<open>float\<close> reads more than that
  (a sign, an exponent, underscores, blanks around, \<^verbatim>\<open>inf\<close>, \<^verbatim>\<open>nan\<close>); the program
  calls it only on what the group of \<open>NUM\<close> matched, which is such a numeral. The
  conversion is correctly rounded.
\<close>

definition py_float :: "pystr \<Rightarrow> pyfloat option" where
  "py_float s =
     (let ip = takeWhile is_ascii_digit s; rest = dropWhile is_ascii_digit s
      in case rest of
           [] \<Rightarrow> if ip = [] then None
                 else Some (round_ratio (int (digits_value (map (\<lambda>c. c - 48) ip))) 1)
         | d # fp \<Rightarrow>
             if d = 46 \<and> list_all is_ascii_digit fp \<and> (ip \<noteq> [] \<or> fp \<noteq> [])
             then Some (round_ratio
                    (int (digits_value (map (\<lambda>c. c - 48) (ip @ fp)))) (10 ^ length fp))
             else None)"

text \<open>
  \<^verbatim>\<open>int(s)\<close> for a string: blanks around, an optional sign, decimal digits of any
  script, single underscores between digits. \<open>None\<close> stands for \<^verbatim>\<open>ValueError\<close>, which
  CPython also raises for more than 4300 digits (its default limit).
\<close>

definition int_blank :: "nat \<Rightarrow> bool" where
  "int_blank c = ((9 \<le> c \<and> c \<le> 13) \<or> c = 32 \<or> (127 < c \<and> is_space c))"

fun int_digits :: "pystr \<Rightarrow> nat list option" where
  "int_digits [] = None"
| "int_digits [c] = map_option (\<lambda>d. [d]) (decimal_value c)"
| "int_digits (c # c' # cs) =
     (case decimal_value c of
        None \<Rightarrow> None
      | Some d \<Rightarrow>
          map_option (\<lambda>ds. d # ds) (int_digits (if c' = 95 then cs else c' # cs)))"

definition int_max_str_digits :: nat where
  "int_max_str_digits = 4300"

definition py_int :: "pystr \<Rightarrow> int option" where
  "py_int s =
     (let t = rev (dropWhile int_blank (rev (dropWhile int_blank s)));
          neg = (t \<noteq> [] \<and> hd t = 45);
          body = (if t \<noteq> [] \<and> (hd t = 45 \<or> hd t = 43) then tl t else t)
      in case int_digits body of
           None \<Rightarrow> None
         | Some ds \<Rightarrow>
             if int_max_str_digits < length ds then None
             else Some (if neg then - int (digits_value ds) else int (digits_value ds)))"

section \<open>The signal parser\<close>

datatype error = IndexError | ValueError | TypeError | AttributeError | OverflowError

definition chr :: "char \<Rightarrow> citem" where
  "chr c = Chr (of_char c)"

definition rng :: "char \<Rightarrow> char \<Rightarrow> citem" where
  "rng a b = Rng (of_char a) (of_char b)"

fun alt :: "regex list \<Rightarrow> regex" where
  "alt [] = Eps"
| "alt [r] = r"
| "alt (r # rs) = Alt r (alt rs)"

text \<open>
  \<^verbatim>\<open>NUM = r"([0-9]+(?:\.[0-9]+)?)"\<close>. The source splices it into other patterns, so
  the number of its group depends on the groups before it: \<open>NUM k\<close> is the copy whose
  group is number \<open>k\<close>.
\<close>

definition NUM :: "nat \<Rightarrow> regex" where
  "NUM k = Grp k (cat [Plus [rng CHR ''0'' CHR ''9''],
                      Opt (cat [Lit ''.'', Plus [rng CHR ''0'' CHR ''9'']])])"

definition RE_NEW_SIGNAL :: pattern where
  "RE_NEW_SIGNAL = (True,
     alt [Lit ''NEW SIGNAL'',
          Lit ''NEW TRADE SIGNAL'',
          cat [alt [Lit ''LONG'', Lit ''SHORT''], Plus [Space], Lit ''SIGNAL''],
          cat [Lit ''Trade'', Plus [Space], Lit ''Signal'']])"

definition RE_CANCELLED :: pattern where
  "RE_CANCELLED = (True, alt [Lit ''TRADE CANCELLED'', Lit ''TRADE CLOSED''])"

text \<open>The pattern of line 61, \<^verbatim>\<open>hourglass \s* closed\<close>; the hourglass is U+23F3.\<close>

definition RE_HOURGLASS_CLOSED :: pattern where
  "RE_HOURGLASS_CLOSED = (True, cat [Cls [Chr 0x23F3], Star [Space], Lit ''closed''])"

text \<open>The dash class holds the hyphen, the en dash U+2013 and the em dash U+2014.\<close>

definition RE_SIDE_SYMBOL :: pattern where
  "RE_SIDE_SYMBOL = (True,
     cat [Grp 1 (alt [Lit ''LONG'', Lit ''SHORT'']), Plus [Space], Lit ''SIGNAL'',
          Star [Space], Cls [chr CHR ''-'', Chr 0x2013, Chr 0x2014], Star [Space],
          Grp 2 (Plus [rng CHR ''A'' CHR ''Z'', rng CHR ''0'' CHR ''9'']),
          Star [Space], Lit ''/'', Star [Space],
          Grp 3 (Plus [rng CHR ''A'' CHR ''Z'', rng CHR ''0'' CHR ''9''])])"

definition RE_ENTRY :: pattern where
  "RE_ENTRY = (True,
     cat [Lit ''Entry'', Star [chr CHR '':'', Space], Opt (Lit ''$''), NUM 1])"

definition RE_TP :: pattern where
  "RE_TP = (True,
     cat [Lit ''TP'', Grp 1 (Plus [Digit]), Star [chr CHR '':'', Space], Opt (Lit ''$''),
          NUM 2])"

definition RE_DCA :: pattern where
  "RE_DCA = (True,
     cat [Lit ''DCA'', Star [Space], Opt (Lit ''#''), Star [Space], Opt (Lit ''1''),
          Star [chr CHR '':'', Space], Opt (Lit ''$''), NUM 1])"

definition RE_SL :: pattern where
  "RE_SL = (True,
     cat [Lit ''Stop'', Star [Space], Lit ''Loss'', Star [chr CHR '':'', Space],
          Opt (Lit ''$''), NUM 1])"

text \<open>The dictionary that \<^verbatim>\<open>parse_signal\<close> returns.\<close>

record signal =
  base :: pystr
  symbol :: pystr
  side :: pystr
  trigger :: pyfloat
  tp_prices :: "pyfloat list"
  dca_prices :: "pyfloat list"
  sl_price :: "pyfloat option"
  raw :: pystr

text \<open>\<^verbatim>\<open>s.replace(",", "")\<close>.\<close>

definition strip_commas :: "pystr \<Rightarrow> pystr" where
  "strip_commas s = filter (\<lambda>c. c \<noteq> 44) s"

text \<open>
  \<^verbatim>\<open>float(m.group(k).replace(",", ""))\<close>. A group that took no part in the match is
  \<^verbatim>\<open>None\<close>, and \<^verbatim>\<open>None.replace\<close> raises \<^verbatim>\<open>AttributeError\<close>.
\<close>

definition group_float :: "match \<Rightarrow> nat \<Rightarrow> error + pyfloat" where
  "group_float m k =
     (case group m k of
        None \<Rightarrow> Inl AttributeError
      | Some g \<Rightarrow> (case py_float (strip_commas g) of None \<Rightarrow> Inl ValueError | Some x \<Rightarrow> Inr x))"

text \<open>
  \<^verbatim>\<open>tps[idx - 1] = price\<close>: a negative index counts from the end, and an index outside
  the list raises \<^verbatim>\<open>IndexError\<close>.
\<close>

definition list_set :: "'a list \<Rightarrow> int \<Rightarrow> 'a \<Rightarrow> error + 'a list" where
  "list_set xs i v =
     (let n = int (length xs); j = (if i < 0 then n + i else i)
      in if 0 \<le> j \<and> j < n then Inr (xs[nat j := v]) else Inl IndexError)"

text \<open>
  One round of the loop over the matches of \<open>RE_TP\<close> (lines 89 to 94): the list grows
  by zeros up to length \<open>idx\<close>, then position \<open>idx - 1\<close> is written.
\<close>

definition tp_step :: "pyfloat list \<Rightarrow> match \<Rightarrow> error + pyfloat list" where
  "tp_step tps m =
     (case group m 1 of
        None \<Rightarrow> Inl TypeError
      | Some g \<Rightarrow>
          (case py_int g of
             None \<Rightarrow> Inl ValueError
           | Some idx \<Rightarrow>
               (case group_float m 2 of
                  Inl e \<Rightarrow> Inl e
                | Inr price \<Rightarrow>
                    list_set (tps @ replicate (nat idx - length tps) (Finite 0)) (idx - 1) price)))"

fun tp_loop :: "pyfloat list \<Rightarrow> match list \<Rightarrow> error + pyfloat list" where
  "tp_loop tps [] = Inr tps"
| "tp_loop tps (m # rest) =
     (case tp_step tps m of Inl e \<Rightarrow> Inl e | Inr tps' \<Rightarrow> tp_loop tps' rest)"

text \<open>Lines 87 to 96: the loop, then the zero placeholders are dropped.\<close>

definition parse_tps :: "pystr \<Rightarrow> error + pyfloat list" where
  "parse_tps text =
     (case tp_loop [] (finditer RE_TP text) of
        Inl e \<Rightarrow> Inl e
      | Inr tps \<Rightarrow> Inr (filter float_gt0 tps))"

text \<open>Lines 102 to 107.\<close>

definition parse_dcas :: "pystr \<Rightarrow> error + pyfloat list" where
  "parse_dcas text =
     (case search RE_DCA text of
        None \<Rightarrow> Inr []
      | Some m_dca \<Rightarrow>
          (case group_float m_dca 1 of
             Inl e \<Rightarrow> Inl e
           | Inr dca_price \<Rightarrow> Inr (if float_gt0 dca_price then [dca_price] else [])))"

text \<open>Lines 110 to 113.\<close>

definition parse_sl :: "pystr \<Rightarrow> error + pyfloat option" where
  "parse_sl text =
     (case search RE_SL text of
        None \<Rightarrow> Inr None
      | Some m_sl \<Rightarrow>
          (case group_float m_sl 1 of Inl e \<Rightarrow> Inl e | Inr x \<Rightarrow> Inr (Some x)))"

text \<open>
  Lines 69 to 124, once \<open>RE_SIDE_SYMBOL\<close> has matched with groups \<open>g1\<close>, \<open>g2\<close>, \<open>g3\<close>.
  \<open>Inr None\<close> is the return value \<^verbatim>\<open>None\<close>, \<open>Inl e\<close> an exception that leaves the
  function. The symbol is built from \<open>quote\<close> as the caller gave it (line 78).
\<close>

definition parse_body :: "pystr \<Rightarrow> pystr \<Rightarrow> pystr \<Rightarrow> pystr \<Rightarrow> pystr \<Rightarrow> error + signal option" where
  "parse_body text quote g1 g2 g3 =
     (if upper g3 \<noteq> upper quote then Inr None
      else
        (case search RE_ENTRY text of
           None \<Rightarrow> Inr None
         | Some m_entry \<Rightarrow>
        (case group_float m_entry 1 of
           Inl e \<Rightarrow> Inl e
         | Inr trigger_price \<Rightarrow>
        (case parse_tps text of
           Inl e \<Rightarrow> Inl e
         | Inr tps \<Rightarrow>
        if tps = [] then Inr None
        else
        (case parse_dcas text of
           Inl e \<Rightarrow> Inl e
         | Inr dcas \<Rightarrow>
        (case parse_sl text of
           Inl e \<Rightarrow> Inl e
         | Inr sl \<Rightarrow>
             Inr (Some \<lparr>base = upper g2,
                        symbol = upper g2 @ quote,
                        side = (if upper g1 = str ''SHORT'' then str ''sell'' else str ''buy''),
                        trigger = trigger_price,
                        tp_prices = tps,
                        dca_prices = dcas,
                        sl_price = sl,
                        raw = take 500 text\<rparr>)))))))"

text \<open>
  \<^verbatim>\<open>parse_signal(text, quote)\<close>, lines 53 to 67 and then the body. A group that took
  no part in the match is \<^verbatim>\<open>None\<close>, and \<^verbatim>\<open>None.upper()\<close> raises.
\<close>

definition parse_signal :: "pystr \<Rightarrow> pystr \<Rightarrow> error + signal option" where
  "parse_signal text quote =
     (if search RE_NEW_SIGNAL text = None then Inr None
      else if search RE_CANCELLED text \<noteq> None then Inr None
      else if search RE_HOURGLASS_CLOSED text \<noteq> None then Inr None
      else
        (case search RE_SIDE_SYMBOL text of
           None \<Rightarrow> Inr None
         | Some m_side \<Rightarrow>
             (case group m_side 1 of
                None \<Rightarrow> Inl AttributeError
              | Some g1 \<Rightarrow>
             (case group m_side 2 of
                None \<Rightarrow> Inl AttributeError
              | Some g2 \<Rightarrow>
             (case group m_side 3 of
                None \<Rightarrow> Inl AttributeError
              | Some g3 \<Rightarrow> parse_body text quote g1 g2 g3)))))"

text \<open>
  \<^verbatim>\<open>signal_hash(sig)\<close>. The f-string formats a string as itself, a float by its
  \<^verbatim>\<open>repr\<close> and a list as its elements' \<^verbatim>\<open>repr\<close>s between brackets, separated by a
  comma and a blank. \<^verbatim>\<open>float.__repr__\<close> and \<^verbatim>\<open>hashlib.md5\<close> belong to the Python
  runtime, not to the repository: \<open>frepr\<close> stands for the first and \<open>md5_hex\<close> for the
  digest, in hexadecimal, of the UTF-8 encoding of a string.
\<close>

fun join :: "pystr \<Rightarrow> pystr list \<Rightarrow> pystr" where
  "join sep [] = []"
| "join sep [p] = p"
| "join sep (p # q # ps) = p @ sep @ join sep (q # ps)"

definition list_repr :: "(pyfloat \<Rightarrow> pystr) \<Rightarrow> pyfloat list \<Rightarrow> pystr" where
  "list_repr frepr xs = str ''['' @ join (str '', '') (map frepr xs) @ str '']''"

definition hash_core :: "(pyfloat \<Rightarrow> pystr) \<Rightarrow> signal \<Rightarrow> pystr" where
  "hash_core frepr sig =
     symbol sig @ str ''|'' @ side sig @ str ''|'' @ frepr (trigger sig) @ str ''|'' @
     list_repr frepr (tp_prices sig) @ str ''|'' @ list_repr frepr (dca_prices sig)"

definition signal_hash :: "(pystr \<Rightarrow> pystr) \<Rightarrow> (pyfloat \<Rightarrow> pystr) \<Rightarrow> signal \<Rightarrow> pystr" where
  "signal_hash md5_hex frepr sig = md5_hex (hash_core frepr sig)"

section \<open>The channel reader\<close>

text \<open>
  The messages are JSON objects read through \<^verbatim>\<open>dict.get\<close>: a field of type \<open>option\<close>
  is \<open>None\<close> when its key is absent.
\<close>

record embed_field =
  field_name :: "pystr option"
  field_value :: "pystr option"

record embed =
  title :: "pystr option"
  description :: "pystr option"
  embed_fields :: "embed_field list"
  footer_text :: "pystr option"

record raw_message =
  msg_id :: "pystr option"
  content :: "pystr option"
  embeds :: "embed list"
  timestamp :: "pystr option"















text \<open>
  \<^verbatim>\<open>n / d\<close> for an integer \<open>n\<close> and a double of integer value \<open>d\<close>: the integer
  becomes a double (the nearest one, and \<^verbatim>\<open>OverflowError\<close> when it is beyond the
  doubles), then the doubles are divided, with one more rounding. The double nearest to
  an integer is an integer again.
\<close>

definition int_div_float :: "int \<Rightarrow> int \<Rightarrow> error + pyfloat" where
  "int_div_float n d =
     (case round_ratio n 1 of
        Finite v \<Rightarrow> Inr (round_ratio \<lfloor>v\<rfloor> d)
      | Infinity \<Rightarrow> Inl OverflowError
      | MinusInfinity \<Rightarrow> Inl OverflowError)"

text \<open>\<^verbatim>\<open>ts_str.replace("Z", "+00:00")\<close>.\<close>

definition replace_Z :: "pystr \<Rightarrow> pystr" where
  "replace_Z s = concat (map (\<lambda>c. if c = 90 then str ''+00:00'' else [c]) s)"

text \<open>
  \<^verbatim>\<open>message_timestamp_unix(msg)\<close>. \<open>fromiso\<close> stands for
  \<^verbatim>\<open>datetime.fromisoformat(s).timestamp()\<close> of the standard library, \<open>None\<close> when it
  raises. An absent id is the default \<open>0\<close>; a \<^verbatim>\<open>ValueError\<close> of \<^verbatim>\<open>int\<close> is caught
  (line 108) and leads to the fallback, an \<^verbatim>\<open>OverflowError\<close> of the division is not.
\<close>

definition timestamp_fallback :: "(pystr \<Rightarrow> pyfloat option) \<Rightarrow> raw_message \<Rightarrow> pyfloat option" where
  "timestamp_fallback fromiso msg =
     (case timestamp msg of
        None \<Rightarrow> None
      | Some ts_str \<Rightarrow> if ts_str = [] then None else fromiso (replace_Z ts_str))"

definition message_timestamp_unix ::
  "(pystr \<Rightarrow> pyfloat option) \<Rightarrow> raw_message \<Rightarrow> error + pyfloat option" where
  "message_timestamp_unix fromiso msg =
     (case (case msg_id msg of None \<Rightarrow> Some 0 | Some s \<Rightarrow> py_int s) of
        None \<Rightarrow> Inr (timestamp_fallback fromiso msg)
      | Some n \<Rightarrow>
          if n \<noteq> 0
          then (case int_div_float (n div 2 ^ 22 + 1420070400000) 1000 of
                  Inl e \<Rightarrow> Inl e
                | Inr t \<Rightarrow> Inr (Some t))
          else Inr (timestamp_fallback fromiso msg))"








section \<open>Evaluating the matcher\<close>

text \<open>
  \<open>strict r\<close>: every match of \<open>r\<close> starts by reading a character with the first class
  of \<open>r\<close>; \<open>first_ok ic r c\<close>: the character \<open>c\<close> is in such a first class. Where the
  first character is not, there is no match, and a search moves on.
\<close>

fun strict :: "regex \<Rightarrow> bool" where
  "strict Eps = False"
| "strict (Cls cs) = True"
| "strict (Seq a b) = strict a"
| "strict (Alt a b) = (strict a \<and> strict b)"
| "strict (Star cs) = False"
| "strict (Opt a) = False"
| "strict (Grp n a) = strict a"

fun first_ok :: "bool \<Rightarrow> regex \<Rightarrow> nat \<Rightarrow> bool" where
  "first_ok ic Eps c = False"
| "first_ok ic (Cls cs) c = in_class ic cs c"
| "first_ok ic (Seq a b) c = first_ok ic a c"
| "first_ok ic (Alt a b) c = (first_ok ic a c \<or> first_ok ic b c)"
| "first_ok ic (Star cs) c = in_class ic cs c"
| "first_ok ic (Opt a) c = first_ok ic a c"
| "first_ok ic (Grp n a) c = first_ok ic a c"

text \<open>\<open>sure r\<close>: the groups that every match of \<open>r\<close> sets.\<close>

fun sure :: "regex \<Rightarrow> nat set" where
  "sure Eps = {}"
| "sure (Cls cs) = {}"
| "sure (Seq a b) = sure a \<union> sure b"
| "sure (Alt a b) = sure a \<inter> sure b"
| "sure (Star cs) = {}"
| "sure (Opt a) = {}"
| "sure (Grp n a) = insert n (sure a)"

text \<open>The text of \<^verbatim>\<open>TEST_SIGNAL_WITH_DCA\<close> in \<^verbatim>\<open>test_signal.py\<close>, line by line.\<close>

definition TEST_SIGNAL_WITH_DCA :: pystr where
  "TEST_SIGNAL_WITH_DCA = concat
    [str ''\<newline>'',
     [0x1F4CA] @ str '' NEW SIGNAL '' @ [0x2022] @ str '' OL '' @ [0x2022] @ str '' Entry $0.01740\<newline>'',
     str ''\<newline>'',
     str ''AO Trading '' @ [0x2022] @ str '' New Trade Signal\<newline>'',
     [0x1F534] @ str '' SHORT SIGNAL - OL/USDT\<newline>'',
     str ''Leverage: 25x '' @ [0x2022] @ str '' Trader: haseeb1111\<newline>'',
     str ''\<newline>'',
     [0x1F4CA] @ str '' Entry: 0.01740 '' @ [0x23F3] @ str '' Pending\<newline>'',
     str ''\<newline>'',
     [0x1F3AF] @ str '' Profit Targets:\<newline>'',
     [0x1F3AF] @ str '' TP1: 0.01719 '' @ [0x2192] @ str '' NEXT\<newline>'',
     [0x23F3] @ str '' TP2: 0.01698 Pending\<newline>'',
     [0x23F3] @ str '' TP3: 0.01670 Pending\<newline>'',
     [0x23F3] @ str '' TP4: 0.01601 Pending\<newline>'',
     str ''\<newline>'',
     [0x1F4CA] @ str '' DCA Levels:\<newline>'',
     [0x23F3] @ str '' DCA1: 0.01800 Pending\<newline>'',
     str ''\<newline>'',
     [0x1F6E1, 0xFE0F] @ str '' Stop Loss: 0.01846\<newline>'',
     str ''\<newline>'',
     [0x1F4CA] @ str '' TRADE NOW:\<newline>'',
     str ''ByBit '' @ [0x2022] @ str '' MEXC '' @ [0x2022] @ str '' Blofin '' @ [0x2022] @ str '' Bitget\<newline>'',
     str ''\<newline>'',
     str ''AO Trading '' @ [0x2022] @ str '' Trade Together. Win Together. '' @ [0x1F680] @ str ''\<newline>'']"








section \<open>Lemmas for evaluation\<close>

lemmas re_defs = NUM_def cat_def Lit_def Plus_def chr_def rng_def

lemma fold_cp_num: "fold_cp (numeral n) = (if 65 \<le> (numeral n :: nat) \<and> (numeral n :: nat) \<le> 90 then numeral n + 32
      else if (numeral n :: nat) = 0x130 \<or> (numeral n :: nat) = 0x131 then 105
      else if (numeral n :: nat) = 0x17F then 115
      else if (numeral n :: nat) = 0x212A then 107
      else numeral n)"
  by (simp add: fold_cp_def)

lemmas cls_defs = fold_cp_num is_space_def is_decimal_def decimal_value_def nd_zeros_def

lemma ms_first: "strict r \<Longrightarrow> \<not> first_ok ic r c \<Longrightarrow> ms ic r (c # s) g = []"
  by (induction r arbitrary: g) auto

lemma search_skip:
  "strict (snd p) \<Longrightarrow> \<not> first_ok (fst p) (snd p) c \<Longrightarrow> search p (c # cs) = search p cs"
  by (simp add: match_at_def ms_first)

lemma finditer_skip:
  "strict (snd p) \<Longrightarrow> \<not> first_ok (fst p) (snd p) c \<Longrightarrow> finditer p (c # cs) = finditer p cs"
  by (simp add: match_at_def ms_first)

lemma RE_NEW_SIGNAL_skip: "fold_cp c \<noteq> 110 \<and> fold_cp c \<noteq> 108 \<and> fold_cp c \<noteq> 115 \<and> fold_cp c \<noteq> 116 \<Longrightarrow> search RE_NEW_SIGNAL (c # cs) = search RE_NEW_SIGNAL cs"
  by (rule search_skip) (simp_all add: RE_NEW_SIGNAL_def re_defs fold_cp_num)

lemma RE_NEW_SIGNAL_try: "fold_cp c = 110 \<or> fold_cp c = 108 \<or> fold_cp c = 115 \<or> fold_cp c = 116 \<Longrightarrow> search RE_NEW_SIGNAL (c # cs) =
   (case match_at RE_NEW_SIGNAL (c # cs) of Some m \<Rightarrow> Some m | None \<Rightarrow> search RE_NEW_SIGNAL cs)"
  by simp

lemma RE_CANCELLED_skip: "fold_cp c \<noteq> 116 \<Longrightarrow> search RE_CANCELLED (c # cs) = search RE_CANCELLED cs"
  by (rule search_skip) (simp_all add: RE_CANCELLED_def re_defs fold_cp_num)

lemma RE_CANCELLED_try: "fold_cp c = 116 \<Longrightarrow> search RE_CANCELLED (c # cs) =
   (case match_at RE_CANCELLED (c # cs) of Some m \<Rightarrow> Some m | None \<Rightarrow> search RE_CANCELLED cs)"
  by simp

lemma RE_HOURGLASS_CLOSED_skip: "fold_cp c \<noteq> 9203 \<Longrightarrow> search RE_HOURGLASS_CLOSED (c # cs) = search RE_HOURGLASS_CLOSED cs"
  by (rule search_skip) (simp_all add: RE_HOURGLASS_CLOSED_def re_defs fold_cp_num)

lemma RE_HOURGLASS_CLOSED_try: "fold_cp c = 9203 \<Longrightarrow> search RE_HOURGLASS_CLOSED (c # cs) =
   (case match_at RE_HOURGLASS_CLOSED (c # cs) of Some m \<Rightarrow> Some m | None \<Rightarrow> search RE_HOURGLASS_CLOSED cs)"
  by simp

lemma RE_SIDE_SYMBOL_skip: "fold_cp c \<noteq> 108 \<and> fold_cp c \<noteq> 115 \<Longrightarrow> search RE_SIDE_SYMBOL (c # cs) = search RE_SIDE_SYMBOL cs"
  by (rule search_skip) (simp_all add: RE_SIDE_SYMBOL_def re_defs fold_cp_num)

lemma RE_SIDE_SYMBOL_try: "fold_cp c = 108 \<or> fold_cp c = 115 \<Longrightarrow> search RE_SIDE_SYMBOL (c # cs) =
   (case match_at RE_SIDE_SYMBOL (c # cs) of Some m \<Rightarrow> Some m | None \<Rightarrow> search RE_SIDE_SYMBOL cs)"
  by simp

lemma RE_ENTRY_skip: "fold_cp c \<noteq> 101 \<Longrightarrow> search RE_ENTRY (c # cs) = search RE_ENTRY cs"
  by (rule search_skip) (simp_all add: RE_ENTRY_def re_defs fold_cp_num)

lemma RE_ENTRY_try: "fold_cp c = 101 \<Longrightarrow> search RE_ENTRY (c # cs) =
   (case match_at RE_ENTRY (c # cs) of Some m \<Rightarrow> Some m | None \<Rightarrow> search RE_ENTRY cs)"
  by simp

lemma RE_TP_skip: "fold_cp c \<noteq> 116 \<Longrightarrow> search RE_TP (c # cs) = search RE_TP cs"
  by (rule search_skip) (simp_all add: RE_TP_def re_defs fold_cp_num)

lemma RE_TP_try: "fold_cp c = 116 \<Longrightarrow> search RE_TP (c # cs) =
   (case match_at RE_TP (c # cs) of Some m \<Rightarrow> Some m | None \<Rightarrow> search RE_TP cs)"
  by simp

lemma RE_DCA_skip: "fold_cp c \<noteq> 100 \<Longrightarrow> search RE_DCA (c # cs) = search RE_DCA cs"
  by (rule search_skip) (simp_all add: RE_DCA_def re_defs fold_cp_num)

lemma RE_DCA_try: "fold_cp c = 100 \<Longrightarrow> search RE_DCA (c # cs) =
   (case match_at RE_DCA (c # cs) of Some m \<Rightarrow> Some m | None \<Rightarrow> search RE_DCA cs)"
  by simp

lemma RE_SL_skip: "fold_cp c \<noteq> 115 \<Longrightarrow> search RE_SL (c # cs) = search RE_SL cs"
  by (rule search_skip) (simp_all add: RE_SL_def re_defs fold_cp_num)

lemma RE_SL_try: "fold_cp c = 115 \<Longrightarrow> search RE_SL (c # cs) =
   (case match_at RE_SL (c # cs) of Some m \<Rightarrow> Some m | None \<Rightarrow> search RE_SL cs)"
  by simp

lemma RE_TP_iter_skip: "fold_cp c \<noteq> 116 \<Longrightarrow> finditer RE_TP (c # cs) = finditer RE_TP cs"
  by (rule finditer_skip) (simp_all add: RE_TP_def re_defs fold_cp_num)

lemma RE_TP_iter_try: "fold_cp c = 116 \<Longrightarrow> finditer RE_TP (c # cs) =
     (case match_at RE_TP (c # cs) of
        None \<Rightarrow> finditer RE_TP cs
      | Some m \<Rightarrow> m # finditer RE_TP (drop (length (whole m) - 1) cs))"
  by simp

lemmas skips = RE_NEW_SIGNAL_skip RE_CANCELLED_skip RE_HOURGLASS_CLOSED_skip RE_SIDE_SYMBOL_skip RE_ENTRY_skip RE_TP_skip RE_DCA_skip RE_SL_skip RE_TP_iter_skip
lemmas tries = RE_NEW_SIGNAL_try RE_CANCELLED_try RE_HOURGLASS_CLOSED_try RE_SIDE_SYMBOL_try RE_ENTRY_try RE_TP_try RE_DCA_try RE_SL_try RE_TP_iter_try

lemma bitlen_0: "bitlen 0 = 0" by (subst bitlen.simps) simp
lemma bitlen_Suc0: "bitlen (Suc 0) = Suc 0" by (subst bitlen.simps, simp, subst bitlen.simps, simp)
lemma bitlen_One: "bitlen (numeral Num.One) = Suc 0" using bitlen_Suc0 by simp
lemma bitlen_Bit0: "bitlen (numeral (Num.Bit0 n)) = Suc (bitlen (numeral n))" by (subst bitlen.simps) simp
lemma bitlen_Bit1: "bitlen (numeral (Num.Bit1 n)) = Suc (bitlen (numeral n))" by (subst bitlen.simps) simp
lemmas bitlen_num = bitlen_0 bitlen_Suc0 bitlen_One bitlen_Bit0 bitlen_Bit1

lemma RE_NEW_SIGNAL_fst: "fst RE_NEW_SIGNAL = True"
  by (simp add: RE_NEW_SIGNAL_def)

lemma RE_NEW_SIGNAL_snd: "snd RE_NEW_SIGNAL =
     alt [Lit ''NEW SIGNAL'',
          Lit ''NEW TRADE SIGNAL'',
          cat [alt [Lit ''LONG'', Lit ''SHORT''], Plus [Space], Lit ''SIGNAL''],
          cat [Lit ''Trade'', Plus [Space], Lit ''Signal'']]"
  by (simp add: RE_NEW_SIGNAL_def)

lemma RE_CANCELLED_fst: "fst RE_CANCELLED = True"
  by (simp add: RE_CANCELLED_def)

lemma RE_CANCELLED_snd: "snd RE_CANCELLED =
     alt [Lit ''TRADE CANCELLED'', Lit ''TRADE CLOSED'']"
  by (simp add: RE_CANCELLED_def)

lemma RE_HOURGLASS_CLOSED_fst: "fst RE_HOURGLASS_CLOSED = True"
  by (simp add: RE_HOURGLASS_CLOSED_def)

lemma RE_HOURGLASS_CLOSED_snd: "snd RE_HOURGLASS_CLOSED =
     cat [Cls [Chr 0x23F3], Star [Space], Lit ''closed'']"
  by (simp add: RE_HOURGLASS_CLOSED_def)

lemma RE_SIDE_SYMBOL_fst: "fst RE_SIDE_SYMBOL = True"
  by (simp add: RE_SIDE_SYMBOL_def)

lemma RE_SIDE_SYMBOL_snd: "snd RE_SIDE_SYMBOL =
     cat [Grp 1 (alt [Lit ''LONG'', Lit ''SHORT'']), Plus [Space], Lit ''SIGNAL'',
          Star [Space], Cls [chr CHR ''-'', Chr 0x2013, Chr 0x2014], Star [Space],
          Grp 2 (Plus [rng CHR ''A'' CHR ''Z'', rng CHR ''0'' CHR ''9'']),
          Star [Space], Lit ''/'', Star [Space],
          Grp 3 (Plus [rng CHR ''A'' CHR ''Z'', rng CHR ''0'' CHR ''9''])]"
  by (simp add: RE_SIDE_SYMBOL_def)

lemma RE_ENTRY_fst: "fst RE_ENTRY = True"
  by (simp add: RE_ENTRY_def)

lemma RE_ENTRY_snd: "snd RE_ENTRY =
     cat [Lit ''Entry'', Star [chr CHR '':'', Space], Opt (Lit ''$''), NUM 1]"
  by (simp add: RE_ENTRY_def)

lemma RE_TP_fst: "fst RE_TP = True"
  by (simp add: RE_TP_def)

lemma RE_TP_snd: "snd RE_TP =
     cat [Lit ''TP'', Grp 1 (Plus [Digit]), Star [chr CHR '':'', Space], Opt (Lit ''$''),
          NUM 2]"
  by (simp add: RE_TP_def)

lemma RE_DCA_fst: "fst RE_DCA = True"
  by (simp add: RE_DCA_def)

lemma RE_DCA_snd: "snd RE_DCA =
     cat [Lit ''DCA'', Star [Space], Opt (Lit ''#''), Star [Space], Opt (Lit ''1''),
          Star [chr CHR '':'', Space], Opt (Lit ''$''), NUM 1]"
  by (simp add: RE_DCA_def)

lemma RE_SL_fst: "fst RE_SL = True"
  by (simp add: RE_SL_def)

lemma RE_SL_snd: "snd RE_SL =
     cat [Lit ''Stop'', Star [Space], Lit ''Loss'', Star [chr CHR '':'', Space],
          Opt (Lit ''$''), NUM 1]"
  by (simp add: RE_SL_def)

lemmas pat_parts = RE_NEW_SIGNAL_fst RE_NEW_SIGNAL_snd RE_CANCELLED_fst RE_CANCELLED_snd RE_HOURGLASS_CLOSED_fst RE_HOURGLASS_CLOSED_snd RE_SIDE_SYMBOL_fst RE_SIDE_SYMBOL_snd RE_ENTRY_fst RE_ENTRY_snd RE_TP_fst RE_TP_snd RE_DCA_fst RE_DCA_snd RE_SL_fst RE_SL_snd

lemmas float_eval = py_float_def is_ascii_digit_def digits_value_def round_ratio_def half_even_div_def bitlen_num Let_def


lemma ms_Cls_Nil: "ms ic (Cls cs) [] g = []"
  by simp

lemma ms_Cls_no: "\<not> in_class ic cs c \<Longrightarrow> ms ic (Cls cs) (c # s) g = []"
  by simp

lemma ms_Cls_yes: "in_class ic cs c \<Longrightarrow> ms ic (Cls cs) (c # s) g = [([c], g)]"
  by simp

lemma ms_Star_Nil: "ms ic (Star cs) [] g = [([], g)]"
  by simp

lemma ms_Star_no: "\<not> in_class ic cs c \<Longrightarrow> ms ic (Star cs) (c # s) g = [([], g)]"
  by simp

lemma ms_Star_yes:
  "in_class ic cs c \<Longrightarrow>
   ms ic (Star cs) (c # s) g = map (\<lambda>(u, g1). (c # u, g1)) (ms ic (Star cs) s g) @ [([], g)]"
  by simp

lemma ms_Seq_Cls_Nil: "ms ic (Seq (Cls cs) r) [] g = []"
  by simp

lemma ms_Seq_Cls_no: "\<not> in_class ic cs c \<Longrightarrow> ms ic (Seq (Cls cs) r) (c # s) g = []"
  by simp

lemma ms_Seq_Cls_yes:
  "in_class ic cs c \<Longrightarrow>
   ms ic (Seq (Cls cs) r) (c # s) g = map (\<lambda>(v, g2). (c # v, g2)) (ms ic r s g)"
  by simp

lemma ms_Seq_Eps: "ms ic (Seq Eps r) s g = ms ic r s g"
  by (simp add: case_prod_unfold)

lemma ms_Seq_Alt: "ms ic (Seq (Alt a b) r) s g = ms ic (Seq a r) s g @ ms ic (Seq b r) s g"
  by simp

lemma ms_Seq_Opt: "ms ic (Seq (Opt a) r) s g = ms ic (Seq a r) s g @ ms ic r s g"
  by (simp add: case_prod_unfold)

lemma concat_map_concat:
  "concat (map f (concat xss)) = concat (map (\<lambda>xs. concat (map f xs)) xss)"
  by (induction xss) simp_all

lemma concat_concat: "concat (concat xss) = concat (map concat xss)"
  by (induction xss) simp_all

lemma ms_Seq_assoc: "ms ic (Seq (Seq a b) r) s g = ms ic (Seq a (Seq b r)) s g"
  by (simp add: concat_map_concat concat_concat map_concat case_prod_unfold comp_def drop_drop
      add.commute)

lemma ms_Seq_Star_Nil: "ms ic (Seq (Star cs) r) [] g = ms ic r [] g"
  by (simp add: case_prod_unfold)

lemma ms_Seq_Star_no:
  "\<not> in_class ic cs c \<Longrightarrow> ms ic (Seq (Star cs) r) (c # s) g = ms ic r (c # s) g"
  by (simp add: case_prod_unfold)

lemma ms_Seq_Star_yes:
  "in_class ic cs c \<Longrightarrow>
   ms ic (Seq (Star cs) r) (c # s) g =
     map (\<lambda>(v, g2). (c # v, g2)) (ms ic (Seq (Star cs) r) s g) @ ms ic r (c # s) g"
  by (simp add: map_concat case_prod_unfold comp_def)

lemma ms_Seq_Grp:
  "ms ic (Seq (Grp n a) r) s g =
     concat (map (\<lambda>(u, g1). map (\<lambda>(v, g2). (u @ v, g2)) (ms ic r (drop (length u) s) g1))
                 (ms ic (Grp n a) s g))"
  by simp

lemmas ms_eval = ms_Cls_Nil ms_Cls_no ms_Cls_yes ms_Star_Nil ms_Star_no ms_Star_yes
  ms_Seq_Cls_Nil ms_Seq_Cls_no ms_Seq_Cls_yes ms_Seq_Eps ms_Seq_Alt ms_Seq_Opt ms_Seq_assoc
  ms_Seq_Star_Nil ms_Seq_Star_no ms_Seq_Star_yes ms_Seq_Grp

lemmas ms_del = search.simps(2) finditer.simps(2) ms.simps(2) ms.simps(3) ms.simps(5)

lemma upper_cp_num: "upper_cp (numeral n) =
     (if 97 \<le> (numeral n :: nat) \<and> (numeral n :: nat) \<le> 122 then [numeral n - 32]
      else if (numeral n :: nat) = 0xB5 then [0x39C]
      else if (numeral n :: nat) = 0xDF then [83, 83]
      else if 0xE0 \<le> (numeral n :: nat) \<and> (numeral n :: nat) \<le> 0xFE \<and> (numeral n :: nat) \<noteq> 0xF7 then [numeral n - 32]
      else if (numeral n :: nat) = 0xFF then [0x178]
      else if (numeral n :: nat) = 0x131 then [73]
      else if (numeral n :: nat) = 0x17F then [83]
      else [numeral n])"
  by (simp add: upper_cp_def)

lemmas parse_eval = parse_signal_def parse_body_def parse_tps_def parse_dcas_def parse_sl_def
  tp_step_def list_set_def group_float_def group_def strip_commas_def py_int_def int_blank_def
  int_max_str_digits_def upper_def upper_cp_num

lemmas eval_simps = ms_eval skips tries match_at_def pat_parts re_defs cls_defs str_def parse_eval float_eval



section \<open>Facts about the matcher\<close>

lemma ms_Star_groups: "(u, g') \<in> set (ms ic (Star cs) s g) \<Longrightarrow> g' = g"
  by (induction s arbitrary: u) (auto split: if_splits)

lemma ms_groups:
  "(u, g') \<in> set (ms ic r s g) \<Longrightarrow>
     (\<forall>k. g k \<noteq> None \<longrightarrow> g' k \<noteq> None) \<and> (\<forall>k\<in>sure r. g' k \<noteq> None)"
proof (induction r arbitrary: s g u g')
  case (Seq a b)
  from Seq.prems obtain u1 g1 v where
    a: "(u1, g1) \<in> set (ms ic a s g)" and b: "(v, g') \<in> set (ms ic b (drop (length u1) s) g1)"
    by auto
  from Seq.IH(1) [OF a] Seq.IH(2) [OF b] show ?case
    by auto
next
  case (Star cs)
  from ms_Star_groups [OF Star.prems] show ?case
    by simp
qed (auto split: list.splits if_splits)

lemma match_at_groups:
  "match_at p s = Some m \<Longrightarrow> k \<in> sure (snd p) \<Longrightarrow> grps m k \<noteq> None"
proof -
  assume m: "match_at p s = Some m" and k: "k \<in> sure (snd p)"
  from m obtain u g rest where "ms (fst p) (snd p) s Map.empty = (u, g) # rest" and "grps m = g"
    by (auto simp: match_at_def split: list.splits)
  then have "(u, grps m) \<in> set (ms (fst p) (snd p) s Map.empty)"
    by simp
  from ms_groups [OF this] k show ?thesis
    by blast
qed

lemma search_match_at: "search p s = Some m \<Longrightarrow> \<exists>s'. match_at p s' = Some m"
  by (induction s) (auto split: option.splits)

lemma search_groups:
  "search p text = Some m \<Longrightarrow> k \<in> sure (snd p) \<Longrightarrow> 0 < k \<Longrightarrow> \<exists>u. group m k = Some u"
  using match_at_groups search_match_at by (fastforce simp: group_def)

lemma sure_side_symbol: "{1, 2, 3} \<subseteq> sure (snd RE_SIDE_SYMBOL)"
  by (simp add: RE_SIDE_SYMBOL_def re_defs)













section \<open>The searches of the test signal\<close>

lemmas search_eval = ms_eval skips tries match_at_def pat_parts re_defs cls_defs str_def




lemma T_side: "search RE_SIDE_SYMBOL TEST_SIGNAL_WITH_DCA =
    Some \<lparr>whole = str ''SHORT SIGNAL - OL/USDT'',
          grps = [1 \<mapsto> str ''SHORT'', 2 \<mapsto> str ''OL'', 3 \<mapsto> str ''USDT'']\<rparr>"
  by (simp add: search_eval TEST_SIGNAL_WITH_DCA_def del: ms_del)









section \<open>The parts of a message\<close>





section \<open>The claims\<close>






text \<open>
  C3. \<^verbatim>\<open>parse_signal\<close> is not total: a take-profit label of rank 0 that comes before
  any other makes line 94 write at index \<open>-1\<close> of the empty list, and the
  \<^verbatim>\<open>IndexError\<close> leaves the function.
\<close>

theorem parse_signal_raises_on_TP0:
  "parse_signal (str ''LONG SIGNAL - BTC/USDT\<newline>Entry: 1\<newline>TP0: 5'') (str ''USDT'')
     = Inl IndexError"
  by (simp add: eval_simps del: ms_del cong: let_weak_cong)



text \<open>
  C5. The symbol is not always upper case: with the configured quote \<^verbatim>\<open>usdt\<close> the
  comparison of line 74 succeeds and line 78 appends the quote as it was given.
\<close>

theorem parse_signal_symbol_lowercase_quote:
  "parse_signal (str ''LONG SIGNAL - BTC/USDT\<newline>Entry: 1\<newline>TP1: 2'') (str ''usdt'')
     = Inr (Some \<lparr>base = str ''BTC'', symbol = str ''BTCusdt'', side = str ''buy'',
              trigger = Finite 1, tp_prices = [Finite 2], dca_prices = [], sl_price = None,
              raw = str ''LONG SIGNAL - BTC/USDT\<newline>Entry: 1\<newline>TP1: 2''\<rparr>)"
  by (simp add: eval_simps del: ms_del cong: let_weak_cong)

text \<open>
  C6. Two signals that agree on symbol, side, trigger, take-profit prices and averaging
  prices have the same fingerprint, whatever the digest and the formatting of floats
  are; in particular the fingerprint does not depend on the stop loss or on the raw
  text.
\<close>

theorem signal_hash_core_fields:
  assumes "symbol s1 = symbol s2" and "side s1 = side s2" and "trigger s1 = trigger s2"
    and "tp_prices s1 = tp_prices s2" and "dca_prices s1 = dca_prices s2"
  shows "signal_hash md5_hex frepr s1 = signal_hash md5_hex frepr s2 \<and>
         signal_hash md5_hex frepr (s1\<lparr>sl_price := sl\<rparr>) = signal_hash md5_hex frepr s1 \<and>
         signal_hash md5_hex frepr (s1\<lparr>raw := r\<rparr>) = signal_hash md5_hex frepr s1"
  using assms by (simp add: signal_hash_def hash_core_def)

theorem signal_hash_core_fields_witness:
  "\<forall>md5_hex frepr.
     signal_hash md5_hex frepr
       \<lparr>base = str ''OL'', symbol = str ''OLUSDT'', side = str ''sell'',
        trigger = round_ratio 174 10000, tp_prices = [round_ratio 1719 100000],
        dca_prices = [round_ratio 18 1000], sl_price = Some (round_ratio 1846 100000),
        raw = str ''SHORT SIGNAL - OL/USDT''\<rparr> =
     signal_hash md5_hex frepr
       \<lparr>base = str ''OL'', symbol = str ''OLUSDT'', side = str ''sell'',
        trigger = round_ratio 174 10000, tp_prices = [round_ratio 1719 100000],
        dca_prices = [round_ratio 18 1000], sl_price = None,
        raw = str ''another text''\<rparr>"
proof (intro allI)
  fix md5_hex :: "pystr \<Rightarrow> pystr" and frepr :: "pyfloat \<Rightarrow> pystr"
  let ?a = "\<lparr>base = str ''OL'', symbol = str ''OLUSDT'', side = str ''sell'',
        trigger = round_ratio 174 10000, tp_prices = [round_ratio 1719 100000],
        dca_prices = [round_ratio 18 1000], sl_price = Some (round_ratio 1846 100000),
        raw = str ''SHORT SIGNAL - OL/USDT''\<rparr>"
  let ?b = "\<lparr>base = str ''OL'', symbol = str ''OLUSDT'', side = str ''sell'',
        trigger = round_ratio 174 10000, tp_prices = [round_ratio 1719 100000],
        dca_prices = [round_ratio 18 1000], sl_price = None,
        raw = str ''another text''\<rparr>"
  have "symbol ?a = symbol ?b" "side ?a = side ?b" "trigger ?a = trigger ?b"
    "tp_prices ?a = tp_prices ?b" "dca_prices ?a = dca_prices ?b"
    by simp_all
  from signal_hash_core_fields [OF this, of md5_hex frepr]
  show "signal_hash md5_hex frepr ?a = signal_hash md5_hex frepr ?b"
    by simp
qed

text \<open>
  C7. When the side-and-market token that \<open>RE_SIDE_SYMBOL\<close> finds carries a quote asset
  whose upper-case form differs from that of the configured quote, \<^verbatim>\<open>parse_signal\<close>
  returns \<^verbatim>\<open>None\<close>.
\<close>

theorem parse_signal_quote_mismatch:
  assumes "search RE_SIDE_SYMBOL text = Some m" and "group m 3 = Some q"
    and "upper q \<noteq> upper quote"
  shows "parse_signal text quote = Inr None"
proof -
  from search_groups [OF assms(1)] sure_side_symbol
  obtain g1 g2 where "group m 1 = Some g1" "group m 2 = Some g2"
    by (metis insert_subset zero_less_numeral zero_less_one)
  with assms show ?thesis
    by (simp add: parse_signal_def parse_body_def)
qed

text \<open>Scenario C: the text of Scenario A parsed with the configured quote \<^verbatim>\<open>EUR\<close>.\<close>

theorem parse_signal_quote_mismatch_witness:
  "parse_signal TEST_SIGNAL_WITH_DCA (str ''EUR'') = Inr None"
proof -
  let ?m = "\<lparr>whole = str ''SHORT SIGNAL - OL/USDT'',
          grps = [1 \<mapsto> str ''SHORT'', 2 \<mapsto> str ''OL'', 3 \<mapsto> str ''USDT'']\<rparr>"
  have q: "group ?m 3 = Some (str ''USDT'')"
    by (simp add: group_def)
  have ne: "upper (str ''USDT'') \<noteq> upper (str ''EUR'')"
    by (simp add: upper_def upper_cp_num str_def)
  from parse_signal_quote_mismatch [OF T_side q ne] show ?thesis .
qed


text \<open>
  C10. In a signal whose only averaging label is \<^verbatim>\<open>DCA2: 0.5\<close>, the pattern \<open>RE_DCA\<close>
  matches \<^verbatim>\<open>DCA2\<close> with the rank digit as its number, and \<^verbatim>\<open>dca_prices\<close> is
  \<^verbatim>\<open>[2.0]\<close>.
\<close>

theorem parse_signal_DCA2_reads_rank:
  "parse_signal
     (str ''LONG SIGNAL - BTC/USDT\<newline>Entry: 1\<newline>TP1: 2\<newline>DCA2: 0.5'') (str ''USDT'')
     = Inr (Some \<lparr>base = str ''BTC'', symbol = str ''BTCUSDT'', side = str ''buy'',
              trigger = Finite 1, tp_prices = [Finite 2], dca_prices = [Finite 2],
              sl_price = None,
              raw = str ''LONG SIGNAL - BTC/USDT\<newline>Entry: 1\<newline>TP1: 2\<newline>DCA2: 0.5''\<rparr>)"
  by (simp add: eval_simps del: ms_del cong: let_weak_cong)

end
